theory Spec2Isabelle
  imports Main
begin

section \<open>Python values, exceptions and the external services\<close>

text \<open>
  The repository holds two bots: \<^verbatim>\<open>main.py\<close> (python-telegram-bot, with the motivation
  workflow) and \<^verbatim>\<open>main_bot_code.py\<close> (aiogram, with dynamic admins). Both are embedded
  here. Strings are byte strings in UTF-8: an emoji of the source is written as its bytes.
  Names of \<^verbatim>\<open>main_bot_code.py\<close> that clash with a name of \<^verbatim>\<open>main.py\<close> carry the
  suffix \<open>_bc\<close>.
\<close>

text \<open>
  Exceptions are values. \<open>TelegramError\<close> and \<open>CompletionError\<close> stand for whatever the
  chat transport and the completion client raise (all of them subclasses of
  \<^verbatim>\<open>Exception\<close>); the others are Python's own.
\<close>

datatype exn =
    TelegramError string
  | CompletionError string
  | NameError string
  | IndexError string
  | ValueError string
  | TypeError string

text \<open>\<^verbatim>\<open>str(e)\<close>: every exception carries its message.\<close>

fun str_exn :: "exn \<Rightarrow> string" where
  "str_exn (TelegramError s) = s"
| "str_exn (CompletionError s) = s"
| "str_exn (NameError s) = s"
| "str_exn (IndexError s) = s"
| "str_exn (ValueError s) = s"
| "str_exn (TypeError s) = s"

text \<open>A chat is addressed by a numeric id (a user) or by a name such as \<^verbatim>\<open>@YourGroup\<close>.\<close>

datatype chat = ChatId int | ChatName string

text \<open>
  The external collaborators, as the code calls them. Each call either returns or raises:
  \<^item> \<^verbatim>\<open>bot.get_chat_member(chat_id, user_id).status\<close>;
  \<^item> \<^verbatim>\<open>bot.send_message(chat_id, text, ...)\<close>: \<open>None\<close> is a delivered message;
  \<^item> \<^verbatim>\<open>bot.send_chat_action(chat_id, "typing")\<close>;
  \<^item> \<^verbatim>\<open>model.generate_content(prompt).text\<close>;
  \<^item> the random source behind \<^verbatim>\<open>random.choice\<close>, which draws an index below a bound;
  \<^item> \<^verbatim>\<open>datetime.now().strftime('%Y-%m-%d')\<close>, the same for the date \<open>n\<close> days
    later, and \<^verbatim>\<open>datetime.now().strftime("%Y-%m-%d %H:%M:%S")\<close>.
  The outcome of a call is taken to depend on its arguments only. A reply to the chat the
  update came from (\<^verbatim>\<open>reply_text\<close>, \<^verbatim>\<open>message.answer\<close>, \<^verbatim>\<open>edit_text\<close>,
  \<^verbatim>\<open>query.answer\<close>) is recorded as an output event and taken to be delivered.
\<close>

record services =
  get_chat_member :: "string \<Rightarrow> int \<Rightarrow> exn + string"
  send_message :: "chat \<Rightarrow> string \<Rightarrow> exn option"
  send_chat_action :: "int \<Rightarrow> exn option"
  generate_content :: "string \<Rightarrow> exn + string"
  randbelow :: "nat \<Rightarrow> nat"
  today :: string
  date_after :: "int \<Rightarrow> string"
  current_time :: string

section \<open>Python and SQLite primitives\<close>

text \<open>\<^verbatim>\<open>s.startswith(p)\<close> and \<^verbatim>\<open>s.split(sep)\<close> for a separator of one character.\<close>

definition startswith :: "string \<Rightarrow> string \<Rightarrow> bool" where
  "startswith s p = (take (length p) s = p)"

fun split_on :: "char \<Rightarrow> string \<Rightarrow> string list" where
  "split_on sep [] = [[]]"
| "split_on sep (c # cs) =
     (if c = sep then [] # split_on sep cs
      else (case split_on sep cs of
              [] \<Rightarrow> [[c]]
            | p # ps \<Rightarrow> (c # p) # ps))"

text \<open>\<^verbatim>\<open>xs[i]\<close> for \<open>i \<ge> 0\<close>: out of range it raises.\<close>

definition item :: "'a list \<Rightarrow> nat \<Rightarrow> exn + 'a" where
  "item xs i = (if i < length xs then Inr (xs ! i) else Inl (IndexError ''list index out of range''))"

text \<open>\<^verbatim>\<open>" ".join(args)\<close>.\<close>

fun join_space :: "string list \<Rightarrow> string" where
  "join_space [] = []"
| "join_space [a] = a"
| "join_space (a # b # bs) = a @ '' '' @ join_space (b # bs)"

text \<open>
  \<^verbatim>\<open>s.strip()\<close>. The whitespace of \<^verbatim>\<open>str.strip\<close> below U+0080 is tab, line feed,
  vertical tab, form feed, carriage return, the four separators U+001C to U+001F and the
  space; whitespace beyond ASCII is left out of the model.
\<close>

definition py_isspace :: "char \<Rightarrow> bool" where
  "py_isspace c = (c \<in> set [CHR 0x09, CHR 0x0A, CHR 0x0B, CHR 0x0C, CHR 0x0D,
                           CHR 0x1C, CHR 0x1D, CHR 0x1E, CHR 0x1F, CHR '' ''])"

definition py_strip :: "string \<Rightarrow> string" where
  "py_strip s = rev (dropWhile py_isspace (rev (dropWhile py_isspace s)))"

text \<open>\<^verbatim>\<open>str(n)\<close> for an integer.\<close>

fun str_nat :: "nat \<Rightarrow> string" where
  "str_nat n =
     (if n < 10 then [''0123456789'' ! n]
      else str_nat (n div 10) @ [''0123456789'' ! (n mod 10)])"

declare str_nat.simps [simp del]

definition str_int :: "int \<Rightarrow> string" where
  "str_int i = (if i < 0 then ''-'' @ str_nat (nat (- i)) else str_nat (nat i))"

text \<open>
  Decimal literals. \<open>digits_value\<close> reads a string of digits; \<open>signed_value\<close> reads an
  optional sign and then the digits that the test \<open>ok\<close> accepts. For \<^verbatim>\<open>int\<close> the test
  is \<open>grouped_digits\<close>: single underscores may stand between digits
  (\<^verbatim>\<open>int("1_0") == 10\<close>).
\<close>

definition is_digit :: "char \<Rightarrow> bool" where
  "is_digit c = (c \<in> set ''0123456789'')"

definition digit_value :: "char \<Rightarrow> nat" where
  "digit_value c = of_char c - 48"

definition digits_value :: "string \<Rightarrow> nat" where
  "digits_value ds = foldl (\<lambda>acc c. 10 * acc + digit_value c) 0 ds"

fun grouped_digits :: "string \<Rightarrow> bool" where
  "grouped_digits [] = False"
| "grouped_digits [c] = is_digit c"
| "grouped_digits (c # d # cs) =
     (is_digit c \<and> (if d = CHR ''_'' then cs \<noteq> [] \<and> grouped_digits cs
                    else grouped_digits (d # cs)))"

definition signed_value :: "string \<Rightarrow> (string \<Rightarrow> bool) \<Rightarrow> int option" where
  "signed_value s ok =
     (case s of
        [] \<Rightarrow> None
      | c # cs \<Rightarrow>
          if c = CHR ''-'' then (if ok cs then Some (- int (digits_value (filter is_digit cs))) else None)
          else if c = CHR ''+'' then (if ok cs then Some (int (digits_value (filter is_digit cs))) else None)
          else if ok s then Some (int (digits_value (filter is_digit s))) else None)"

text \<open>
  \<^verbatim>\<open>int(s)\<close> for a string: the whitespace it strips is that of C (tab, line feed, vertical
  tab, form feed, carriage return, space); digits and whitespace beyond ASCII, which
  \<^verbatim>\<open>int\<close> accepts as well, are left out of the model.
  The message of the \<^verbatim>\<open>ValueError\<close> quotes the string as \<^verbatim>\<open>repr\<close> does for plain text.
\<close>

definition c_isspace :: "char \<Rightarrow> bool" where
  "c_isspace c = (c \<in> set [CHR 0x09, CHR 0x0A, CHR 0x0B, CHR 0x0C, CHR 0x0D, CHR '' ''])"

definition py_int :: "string \<Rightarrow> exn + int" where
  "py_int s =
     (case signed_value (rev (dropWhile c_isspace (rev (dropWhile c_isspace s)))) grouped_digits of
        None \<Rightarrow> Inl (ValueError (''invalid literal for int() with base 10: '' @ [CHR 0x27] @ s @ [CHR 0x27]))
      | Some i \<Rightarrow> Inr i)"

text \<open>
  SQLite compares a column of INTEGER affinity with a bound text value after applying
  numeric affinity to the text: a text that is a well-formed integer literal (optional
  white space around it, an optional sign, decimal digits) is converted to that integer,
  so that \<^verbatim>\<open>WHERE user_id = '0123'\<close> selects the row 123. Any other text is taken not to
  match; literals with a fraction or an exponent, which SQLite converts as well, and
  integers beyond 64 bits are left out of the model.
\<close>

definition sqlite_integer :: "string \<Rightarrow> int option" where
  "sqlite_integer s =
     signed_value (rev (dropWhile c_isspace (rev (dropWhile c_isspace s)))) (\<lambda>ds. ds \<noteq> [] \<and> list_all is_digit ds)"

definition sqlite_eq :: "int \<Rightarrow> string \<Rightarrow> bool" where
  "sqlite_eq k s = (sqlite_integer s = Some k)"

section \<open>Messages, keyboards and the result of a handler\<close>

datatype button =
    UrlButton string string
  | CallbackButton string string
  | SwitchInlineButton string string

datatype markup =
    InlineKeyboardMarkup "button list list"
  | ReplyKeyboardMarkup "string list list"

text \<open>
  What a handler does to the outside, in order:
  \<^item> \<open>Reply\<close>: \<^verbatim>\<open>update.message.reply_text\<close> or \<^verbatim>\<open>message.answer\<close>;
  \<^item> \<open>Send\<close>: a call of \<^verbatim>\<open>bot.send_message\<close> (whether it is delivered is what
    \<open>send_message\<close> of the services says);
  \<^item> \<open>EditText\<close>: \<^verbatim>\<open>query.message.edit_text\<close>;
  \<^item> \<open>AnswerCallback\<close>: \<^verbatim>\<open>query.answer()\<close> or \<^verbatim>\<open>bot.answer_callback_query\<close>;
  \<^item> \<open>ChatAction\<close>: \<^verbatim>\<open>bot.send_chat_action\<close>;
  \<^item> \<open>Log\<close>: \<^verbatim>\<open>logger.error\<close> or \<^verbatim>\<open>logging.error\<close>.
\<close>

datatype event =
    Reply string "markup option"
  | Send chat string "markup option"
  | EditText string "markup option"
  | AnswerCallback
  | ChatAction int
  | Log string

text \<open>
  A handler ends by returning (\<open>raised = None\<close>) or with an exception leaving it; either
  way it has produced \<open>events\<close> and left the state \<open>final\<close>.
\<close>

record 's run =
  raised :: "exn option"
  events :: "event list"
  final :: 's

section \<open>main.py: the store\<close>

text \<open>
  The tables \<^verbatim>\<open>users\<close> and \<^verbatim>\<open>motivations\<close> of \<^verbatim>\<open>bot.db\<close>. A list holds the rows
  in the order in which SQLite scans the table, which is the order of the INTEGER PRIMARY
  KEY: \<^verbatim>\<open>user_id\<close> for users, \<^verbatim>\<open>id\<close> for motivations. Ids are taken to be within the
  64 bits of an SQLite integer; binding a larger Python integer, which \<^verbatim>\<open>execute\<close>
  refuses, is left out of the model.
\<close>

record user_row =
  user_id :: int
  username :: "string option"
  is_active :: int

record motivation =
  motivation_id :: int
  motivation_text :: string
  submitted_by :: int
  status :: string
  schedule_date :: "string option"
  message_id :: "int option"

text \<open>\<open>motivations_seq\<close> is the AUTOINCREMENT counter that SQLite keeps for the table.\<close>

record db =
  users :: "user_row list"
  motivations :: "motivation list"
  motivations_seq :: int

text \<open>
  The state of the bot: the store, and \<^verbatim>\<open>context.user_data\<close>, a dictionary for each
  user.
\<close>

record world =
  store :: db
  user_data :: "int \<Rightarrow> string \<rightharpoonup> bool"

text \<open>
  \<^verbatim>\<open>INSERT OR REPLACE INTO users (user_id, username, is_active) VALUES (?, ?, 1)\<close>: a
  row with the same id is deleted, and the new row takes its place in the order of ids.
\<close>

definition insert_or_replace_user :: "int \<Rightarrow> string option \<Rightarrow> db \<Rightarrow> db" where
  "insert_or_replace_user uid uname d =
     d\<lparr>users := insort_key user_id \<lparr>user_id = uid, username = uname, is_active = 1\<rparr>
                  (filter (\<lambda>u. user_id u \<noteq> uid) (users d))\<rparr>"

text \<open>\<^verbatim>\<open>UPDATE users SET is_active = 0 WHERE user_id = ?\<close>\<close>

definition deactivate_user :: "int \<Rightarrow> db \<Rightarrow> db" where
  "deactivate_user uid d =
     d\<lparr>users := map (\<lambda>u. if user_id u = uid then u\<lparr>is_active := 0\<rparr> else u) (users d)\<rparr>"

text \<open>\<^verbatim>\<open>SELECT user_id FROM users WHERE is_active = 1\<close>\<close>

definition select_active_users :: "db \<Rightarrow> int list" where
  "select_active_users d = map user_id (filter (\<lambda>u. is_active u = 1) (users d))"

text \<open>
  \<^verbatim>\<open>INSERT INTO motivations (text, submitted_by, status) VALUES (?, ?, 'pending')\<close>, with
  \<^verbatim>\<open>lastrowid\<close>: the new id is one more than the largest id the table has ever held.
\<close>

definition next_motivation_id :: "db \<Rightarrow> int" where
  "next_motivation_id d = 1 + fold max (map motivation_id (motivations d)) (motivations_seq d)"

definition insert_motivation :: "string \<Rightarrow> int \<Rightarrow> db \<Rightarrow> int \<times> db" where
  "insert_motivation txt uid d =
     (let new_id = next_motivation_id d
      in (new_id,
          d\<lparr>motivations := motivations d @
                 [\<lparr>motivation_id = new_id, motivation_text = txt, submitted_by = uid,
                   status = ''pending'', schedule_date = None, message_id = None\<rparr>],
            motivations_seq := new_id\<rparr>))"

text \<open>\<^verbatim>\<open>UPDATE motivations SET status = ? WHERE id = ?\<close>\<close>

definition update_status :: "string \<Rightarrow> int \<Rightarrow> db \<Rightarrow> db" where
  "update_status st mid d =
     d\<lparr>motivations :=
         map (\<lambda>m. if motivation_id m = mid then m\<lparr>status := st\<rparr> else m) (motivations d)\<rparr>"

text \<open>
  \<^verbatim>\<open>UPDATE motivations SET status = 'approved', schedule_date = ? WHERE id = ?\<close>, where
  the id is bound as text.
\<close>

definition update_schedule :: "string \<Rightarrow> string \<Rightarrow> db \<Rightarrow> db" where
  "update_schedule date mid d =
     d\<lparr>motivations :=
         map (\<lambda>m. if sqlite_eq (motivation_id m) mid
                   then m\<lparr>status := ''approved'', schedule_date := Some date\<rparr> else m)
             (motivations d)\<rparr>"

text \<open>\<^verbatim>\<open>SELECT text FROM motivations WHERE id = ?\<close> and \<^verbatim>\<open>fetchone()\<close>\<close>

definition select_text :: "int \<Rightarrow> db \<Rightarrow> string option" where
  "select_text mid d =
     (case filter (\<lambda>m. motivation_id m = mid) (motivations d) of
        [] \<Rightarrow> None
      | m # _ \<Rightarrow> Some (motivation_text m))"

text \<open>
  \<^verbatim>\<open>SELECT text FROM motivations WHERE status = 'approved' AND
  (schedule_date IS NULL OR schedule_date = ?)\<close>
\<close>

definition select_due :: "string \<Rightarrow> db \<Rightarrow> string list" where
  "select_due date d =
     map motivation_text
       (filter (\<lambda>m. status m = ''approved'' \<and>
                     (schedule_date m = None \<or> schedule_date m = Some date))
          (motivations d))"

section \<open>The membership gate\<close>

text \<open>Module constants of \<^verbatim>\<open>main.py\<close>, read from the environment.\<close>

record config =
  CHANNEL_ID :: string
  GROUP_ID :: string
  WEBSITE_URL :: string
  ADMIN_IDS :: "int list"
  MOTIVATION_GROUP_ID :: string

text \<open>Module constants of \<^verbatim>\<open>main_bot_code.py\<close>; its \<^verbatim>\<open>ADMIN_IDS\<close> is a list of strings.\<close>

record config_bc =
  REQUIRED_CHANNEL_ID :: string
  REQUIRED_GROUP_ID :: string
  ADMIN_IDS_bc :: "string list"

text \<open>
  \<^verbatim>\<open>check_membership\<close> (main.py): the body of the \<^verbatim>\<open>try\<close> is the inner case
  expression, in which the first lookup that raises ends the body; the outer case is the
  \<^verbatim>\<open>except Exception\<close> clause, which logs the exception and returns \<^verbatim>\<open>False\<close>. The
  result is what the gate has logged and the boolean it returns; the result type keeps
  the possibility of an exception leaving the function.
\<close>

definition check_membership :: "config \<Rightarrow> services \<Rightarrow> int \<Rightarrow> exn + event list \<times> bool" where
  "check_membership cfg srv uid =
     (case (case get_chat_member srv (CHANNEL_ID cfg) uid of
              Inl e \<Rightarrow> Inl e
            | Inr channel_status \<Rightarrow>
                (case get_chat_member srv (GROUP_ID cfg) uid of
                   Inl e \<Rightarrow> Inl e
                 | Inr group_status \<Rightarrow>
                     Inr (channel_status \<in> set [''member'', ''administrator'', ''creator''] \<and>
                          group_status \<in> set [''member'', ''administrator'', ''creator'']))) of
        Inl e \<Rightarrow> Inr ([Log (''Error checking membership: '' @ str_exn e)], False)
      | Inr b \<Rightarrow> Inr ([], b))"

text \<open>\<^verbatim>\<open>check_subscription\<close> (main_bot_code.py) has the same shape.\<close>

definition check_subscription :: "config_bc \<Rightarrow> services \<Rightarrow> int \<Rightarrow> exn + event list \<times> bool" where
  "check_subscription cfg srv uid =
     (case (case get_chat_member srv (REQUIRED_CHANNEL_ID cfg) uid of
              Inl e \<Rightarrow> Inl e
            | Inr channel_member \<Rightarrow>
                (case get_chat_member srv (REQUIRED_GROUP_ID cfg) uid of
                   Inl e \<Rightarrow> Inl e
                 | Inr group_member \<Rightarrow>
                     Inr (channel_member \<in> set [''member'', ''administrator'', ''creator''] \<and>
                          group_member \<in> set [''member'', ''administrator'', ''creator'']))) of
        Inl e \<Rightarrow> Inr ([Log (''Error checking subscription: '' @ str_exn e)], False)
      | Inr b \<Rightarrow> Inr ([], b))"

section \<open>main.py: the handlers\<close>

definition get_main_keyboard :: markup where
  "get_main_keyboard =
     ReplyKeyboardMarkup [[''Yordam'', ''Biz haqimizda''], [''Kanal'', ''Guruh'', ''Veb sayt'']]"

definition get_membership_keyboard :: "config \<Rightarrow> markup" where
  "get_membership_keyboard cfg =
     InlineKeyboardMarkup
       [[UrlButton ''Kanalga a'zo bo'lish'' (''https://t.me/'' @ drop 1 (CHANNEL_ID cfg))],
        [UrlButton ''Guruhga a'zo bo'lish'' (''https://t.me/'' @ drop 1 (GROUP_ID cfg))],
        [CallbackButton ''Tekshirish'' ''check_membership'']]"

definition start :: "config \<Rightarrow> services \<Rightarrow> int \<Rightarrow> string option \<Rightarrow> world \<Rightarrow> world run" where
  "start cfg srv uid uname w =
     (let w1 = w\<lparr>store := insert_or_replace_user uid uname (store w)\<rparr>
      in case check_membership cfg srv uid of
           Inl e \<Rightarrow> \<lparr>raised = Some e, events = [], final = w1\<rparr>
         | Inr (logged, member) \<Rightarrow>
             if member
             then \<lparr>raised = None,
                   events = logged @
                            [Reply ''Botga xush kelibsiz! Quyidagi tugmalardan foydalaning:''
                                   (Some get_main_keyboard)],
                   final = w1\<rparr>
             else \<lparr>raised = None,
                   events = logged @
                            [Reply ''Botdan foydalanish uchun kanal va guruhga a'zo bo'ling:''
                                   (Some (get_membership_keyboard cfg))],
                   final = w1\<rparr>)"

definition stop :: "int \<Rightarrow> world \<Rightarrow> world run" where
  "stop uid w =
     \<lparr>raised = None,
      events = [Reply ''Bot to'xtatildi. Qayta boshlash uchun /start buyrug'ini yuboring.'' None],
      final = w\<lparr>store := deactivate_user uid (store w)\<rparr>\<rparr>"

definition help_text :: string where
  "help_text =
     [CHR 0x0A] @ ''    Bot buyruqlari:'' @
     [CHR 0x0A] @ ''    /start - Botni boshlash'' @
     [CHR 0x0A] @ ''    /stop - Botni to'xtatish'' @
     [CHR 0x0A] @ ''    /help - Yordam'' @
     [CHR 0x0A] @ ''    /ai - Sun'iy intellekt bilan suhbat'' @
     [CHR 0x0A] @ ''    /about - Biz haqimizda'' @
     [CHR 0x0A] @ ''    Motivatsiya yuborish uchun oddiy xabar sifatida yozing.'' @
     [CHR 0x0A] @ ''    ''"

definition help_command :: "world \<Rightarrow> world run" where
  "help_command w =
     \<lparr>raised = None, events = [Reply help_text (Some get_main_keyboard)], final = w\<rparr>"

definition about :: "world \<Rightarrow> world run" where
  "about w =
     \<lparr>raised = None,
      events = [Reply (''Bizning loyiha haqida: Bu Telegram bot foydalanuvchilarga motivatsiya, '' @
                       ''yangiliklar va AI bilan suhbat imkonini beradi.'')
                      (Some get_main_keyboard)],
      final = w\<rparr>"


text \<open>\<^verbatim>\<open>str(update.effective_user.username)\<close>: a user without a handle prints as \<^verbatim>\<open>None\<close>.\<close>

definition str_username :: "string option \<Rightarrow> string" where
  "str_username uname = (case uname of None \<Rightarrow> ''None'' | Some n \<Rightarrow> n)"

text \<open>The moderation buttons that \<^verbatim>\<open>handle_message\<close> attaches to a new submission.\<close>

definition moderation_keyboard :: "int \<Rightarrow> markup" where
  "moderation_keyboard mid =
     InlineKeyboardMarkup
       [[CallbackButton ''Qabul qilish'' (''approve_'' @ str_int mid),
         CallbackButton ''Bekor qilish'' (''reject_'' @ str_int mid)],
        [CallbackButton ''1 kun'' (''schedule_'' @ str_int mid @ ''_1''),
         CallbackButton ''2 kun'' (''schedule_'' @ str_int mid @ ''_2''),
         CallbackButton ''3 kun'' (''schedule_'' @ str_int mid @ ''_3'')]]"

text \<open>
  \<^verbatim>\<open>handle_message\<close>: the menu labels first, then the AI relay when \<^verbatim>\<open>ai_mode\<close> is
  set, then the submission of a motivation. No branch calls \<^verbatim>\<open>check_membership\<close>.
\<close>

definition handle_message ::
  "config \<Rightarrow> services \<Rightarrow> int \<Rightarrow> string option \<Rightarrow> string \<Rightarrow> world \<Rightarrow> world run" where
  "handle_message cfg srv uid uname txt w =
     (if txt \<in> set [''Yordam''] then help_command w
      else if txt \<in> set [''Biz haqimizda''] then about w
      else if txt = ''Kanal'' then
        \<lparr>raised = None,
         events = [Reply (''Kanal: https://t.me/'' @ drop 1 (CHANNEL_ID cfg)) None], final = w\<rparr>
      else if txt = ''Guruh'' then
        \<lparr>raised = None,
         events = [Reply (''Guruh: https://t.me/'' @ drop 1 (GROUP_ID cfg)) None], final = w\<rparr>
      else if txt = ''Veb sayt'' then
        \<lparr>raised = None, events = [Reply (''Veb sayt: '' @ WEBSITE_URL cfg) None], final = w\<rparr>
      else if (case user_data w uid ''ai_mode'' of None \<Rightarrow> False | Some b \<Rightarrow> b) then
        (case generate_content srv txt of
           Inr response \<Rightarrow> \<lparr>raised = None, events = [Reply response None], final = w\<rparr>
         | Inl e \<Rightarrow>
             \<lparr>raised = None, events = [Reply (''Xato yuz berdi: '' @ str_exn e) None], final = w\<rparr>)
      else
        (let (mid, d) = insert_motivation txt uid (store w);
             notice = ''Yangi motivatsiya:'' @ [CHR 0x0A] @ txt @ [CHR 0x0A] @
                      ''Yuboruvchi: @'' @ str_username uname;
             to_group = Send (ChatName (MOTIVATION_GROUP_ID cfg)) notice
                             (Some (moderation_keyboard mid))
         in case send_message srv (ChatName (MOTIVATION_GROUP_ID cfg)) notice of
              Some e \<Rightarrow> \<lparr>raised = Some e, events = [to_group], final = w\<lparr>store := d\<rparr>\<rparr>
            | None \<Rightarrow>
                \<lparr>raised = None,
                 events = [to_group,
                           Reply ''Motivatsiyangiz adminga yuborildi. Tasdiqlanishini kuting.'' None],
                 final = w\<lparr>store := d\<rparr>\<rparr>))"

text \<open>The loop of \<^verbatim>\<open>broadcast\<close>: one send for each user; a failure is logged and skipped.\<close>

fun broadcast_loop :: "services \<Rightarrow> string \<Rightarrow> int list \<Rightarrow> event list" where
  "broadcast_loop srv message [] = []"
| "broadcast_loop srv message (user # rest) =
     (case send_message srv (ChatId user) message of
        None \<Rightarrow> [Send (ChatId user) message None]
      | Some e \<Rightarrow>
          [Send (ChatId user) message None,
           Log (''Error sending broadcast to '' @ str_int user @ '': '' @ str_exn e)])
     @ broadcast_loop srv message rest"

definition broadcast :: "config \<Rightarrow> services \<Rightarrow> int \<Rightarrow> string list \<Rightarrow> world \<Rightarrow> world run" where
  "broadcast cfg srv uid args w =
     (if uid \<notin> set (ADMIN_IDS cfg) then
        \<lparr>raised = None, events = [Reply ''Bu buyruq faqat adminlar uchun.'' None], final = w\<rparr>
      else if args = [] then
        \<lparr>raised = None,
         events = [Reply ''Xabar yuborish uchun matn kiriting: /broadcast Xabar matni'' None],
         final = w\<rparr>
      else
        (let message = join_space args;
             active = select_active_users (store w)
         in \<lparr>raised = None,
             events = broadcast_loop srv message active @
                      [Reply ''Xabar barcha foydalanuvchilarga yuborildi.'' None],
             final = w\<rparr>))"

text \<open>
  The labels of the like and share buttons, as the bytes of the source file (a thumbs-up
  and an outbox emoji that were decoded with the wrong character set and saved again).
\<close>

definition like_emoji :: string where
  "like_emoji = [CHR 0xEF, CHR 0xA3, CHR 0xBF, CHR 0xC3, CHR 0xBC, CHR 0xC3, CHR 0xAB, CHR 0xC3, CHR 0xA7]"

definition share_emoji :: string where
  "share_emoji = [CHR 0xEF, CHR 0xA3, CHR 0xBF, CHR 0xC3, CHR 0xBC, CHR 0xC3, CHR 0xAC, CHR 0xC2, CHR 0xA7]"

text \<open>
  The names bound at module level once \<^verbatim>\<open>main.py\<close> has been loaded: its imports, its
  constants and its functions. Reading any other global name that is no builtin raises
  \<^verbatim>\<open>NameError\<close>.
\<close>

definition module_globals :: "string list" where
  "module_globals =
     [''os'', ''sqlite3'', ''random'', ''schedule'', ''time'', ''asyncio'', ''datetime'',
      ''Update'', ''InlineKeyboardButton'', ''InlineKeyboardMarkup'', ''ReplyKeyboardMarkup'',
      ''ReplyKeyboardRemove'', ''Application'', ''CommandHandler'', ''CallbackQueryHandler'',
      ''MessageHandler'', ''filters'', ''ContextTypes'', ''genai'', ''load_dotenv'', ''logging'',
      ''TOKEN'', ''GEMINI_API_KEY'', ''CHANNEL_ID'', ''GROUP_ID'', ''WEBSITE_URL'', ''ADMIN_IDS'',
      ''MOTIVATION_GROUP_ID'', ''logger'', ''model'', ''init_db'', ''check_membership'',
      ''get_main_keyboard'', ''get_membership_keyboard'', ''start'', ''stop'', ''help_command'',
      ''about'', ''ai_command'', ''handle_message'', ''broadcast'', ''button_callback'',
      ''send_daily_motivation'', ''run_scheduler'', ''main'']"

definition load_global :: "string \<Rightarrow> exn + unit" where
  "load_global name =
     (if name \<in> set module_globals then Inr ()
      else Inl (NameError (''name '' @ [CHR 0x27] @ name @ [CHR 0x27] @ '' is not defined'')))"

text \<open>The fan-out of an approved motivation: the loop of the \<^verbatim>\<open>approve_\<close> branch.\<close>

fun approve_loop :: "services \<Rightarrow> string \<Rightarrow> markup \<Rightarrow> int list \<Rightarrow> event list" where
  "approve_loop srv txt keyboard [] = []"
| "approve_loop srv txt keyboard (user # rest) =
     (case send_message srv (ChatId user) txt of
        None \<Rightarrow> [Send (ChatId user) txt (Some keyboard)]
      | Some e \<Rightarrow>
          [Send (ChatId user) txt (Some keyboard),
           Log (''Error sending motivation to '' @ str_int user @ '': '' @ str_exn e)])
     @ approve_loop srv txt keyboard rest"

text \<open>
  The \<^verbatim>\<open>approve_\<close> branch. The UPDATE has no condition on the current status. When no row
  has the id, \<^verbatim>\<open>fetchone()\<close> is \<^verbatim>\<open>None\<close> and subscripting it raises before the commit.
\<close>

definition approve_branch :: "services \<Rightarrow> string \<Rightarrow> world \<Rightarrow> world run" where
  "approve_branch srv data w =
     (case item (split_on CHR ''_'' data) 1 of
        Inl e \<Rightarrow> \<lparr>raised = Some e, events = [AnswerCallback], final = w\<rparr>
      | Inr piece \<Rightarrow>
     (case py_int piece of
        Inl e \<Rightarrow> \<lparr>raised = Some e, events = [AnswerCallback], final = w\<rparr>
      | Inr mid \<Rightarrow>
          (let d = update_status ''approved'' mid (store w)
           in case select_text mid d of
                None \<Rightarrow>
                  \<lparr>raised = Some (TypeError ([CHR 0x27] @ ''NoneType'' @ [CHR 0x27] @
                                              '' object is not subscriptable'')),
                   events = [AnswerCallback], final = w\<rparr>
              | Some txt \<Rightarrow>
                  (let keyboard = InlineKeyboardMarkup
                         [[CallbackButton (like_emoji @ '' Like'') (''like_'' @ str_int mid),
                           SwitchInlineButton (share_emoji @ '' Ulashish'') txt]];
                       active = select_active_users d
                   in \<lparr>raised = None,
                       events = [AnswerCallback] @ approve_loop srv txt keyboard active @
                                [EditText (''Motivatsiya tasdiqlandi va yuborildi:'' @ [CHR 0x0A] @ txt)
                                          None],
                       final = w\<lparr>store := d\<rparr>\<rparr>))))"

text \<open>The \<^verbatim>\<open>reject_\<close> branch: an UPDATE with no condition on the current status.\<close>

definition reject_branch :: "string \<Rightarrow> world \<Rightarrow> world run" where
  "reject_branch data w =
     (case item (split_on CHR ''_'' data) 1 of
        Inl e \<Rightarrow> \<lparr>raised = Some e, events = [AnswerCallback], final = w\<rparr>
      | Inr piece \<Rightarrow>
     (case py_int piece of
        Inl e \<Rightarrow> \<lparr>raised = Some e, events = [AnswerCallback], final = w\<rparr>
      | Inr mid \<Rightarrow>
          \<lparr>raised = None,
           events = [AnswerCallback, EditText ''Motivatsiya bekor qilindi.'' None],
           final = w\<lparr>store := update_status ''rejected'' mid (store w)\<rparr>\<rparr>))"

text \<open>
  The \<^verbatim>\<open>schedule_\<close> branch. After the two pieces of the data are taken, the date is
  computed as \<^verbatim>\<open>datetime.now() + timedelta(days=int(days))\<close>: the name \<^verbatim>\<open>timedelta\<close>
  is read before its argument is evaluated.
\<close>

definition schedule_branch :: "services \<Rightarrow> string \<Rightarrow> world \<Rightarrow> world run" where
  "schedule_branch srv data w =
     (case item (split_on CHR ''_'' data) 1 of
        Inl e \<Rightarrow> \<lparr>raised = Some e, events = [AnswerCallback], final = w\<rparr>
      | Inr mid \<Rightarrow>
     (case item (split_on CHR ''_'' data) 2 of
        Inl e \<Rightarrow> \<lparr>raised = Some e, events = [AnswerCallback], final = w\<rparr>
      | Inr days \<Rightarrow>
     (case load_global ''timedelta'' of
        Inl e \<Rightarrow> \<lparr>raised = Some e, events = [AnswerCallback], final = w\<rparr>
      | Inr _ \<Rightarrow>
     (case py_int days of
        Inl e \<Rightarrow> \<lparr>raised = Some e, events = [AnswerCallback], final = w\<rparr>
      | Inr n \<Rightarrow>
          \<lparr>raised = None,
           events = [AnswerCallback,
                     EditText (''Motivatsiya '' @ days @ '' kundan keyin yuboriladi.'') None],
           final = w\<lparr>store := update_schedule (date_after srv n) mid (store w)\<rparr>\<rparr>))))"

text \<open>
  \<^verbatim>\<open>button_callback\<close>, for a press by \<open>uid\<close> on a button of a message whose text is
  \<open>message_text\<close>, carrying \<open>data\<close>.
\<close>

definition button_callback ::
  "config \<Rightarrow> services \<Rightarrow> int \<Rightarrow> string \<Rightarrow> string \<Rightarrow> world \<Rightarrow> world run" where
  "button_callback cfg srv uid message_text data w =
     (if data = ''check_membership'' then
        (case check_membership cfg srv uid of
           Inl e \<Rightarrow> \<lparr>raised = Some e, events = [AnswerCallback], final = w\<rparr>
         | Inr (logged, member) \<Rightarrow>
             if member then
               \<lparr>raised = send_message srv (ChatId uid) ''Botga xush kelibsiz!'',
                events = [AnswerCallback] @ logged @
                         [EditText ''Tabriklaymiz! Endi botdan foydalanishingiz mumkin.'' None,
                          Send (ChatId uid) ''Botga xush kelibsiz!'' (Some get_main_keyboard)],
                final = w\<rparr>
             else
               \<lparr>raised = None,
                events = [AnswerCallback] @ logged @
                         [EditText ''Iltimos, kanal va guruhga a'zo bo'ling:''
                                   (Some (get_membership_keyboard cfg))],
                final = w\<rparr>)
      else if startswith data ''approve_'' then approve_branch srv data w
      else if startswith data ''reject_'' then reject_branch data w
      else if startswith data ''schedule_'' then schedule_branch srv data w
      else if startswith data ''like_'' then
        \<lparr>raised = None,
         events = [AnswerCallback,
                   EditText (message_text @ [CHR 0x0A] @ like_emoji @ '' Sizga yoqdi!'') None],
         final = w\<rparr>
      else \<lparr>raised = None, events = [AnswerCallback], final = w\<rparr>)"

section \<open>main.py: the daily motivation and its timer\<close>

text \<open>
  \<^verbatim>\<open>send_daily_motivation\<close> queues, for each active user, a callback
  \<^verbatim>\<open>lambda ctx: ctx.bot.send_message(user[0], motivation, ...)\<close> on the job queue, to
  run at once. A Python closure refers to the variables \<^verbatim>\<open>user\<close> and \<^verbatim>\<open>motivation\<close>
  of the enclosing call, not to the values they had when the lambda was made: the
  callbacks of one call share one frame, and each reads it when the job queue runs it.
  The function is synchronous, so the queue runs the callbacks after the loop has ended.
  Queuing a callback (\<^verbatim>\<open>run_once\<close>) is taken not to raise.
\<close>

record frame =
  user_var :: "int option"
  motivation_var :: string

text \<open>The body of the lambda, reading the frame.\<close>

definition daily_callback :: "frame \<Rightarrow> exn + event" where
  "daily_callback fr =
     (case user_var fr of
        None \<Rightarrow> Inl (NameError ''free variable 'user' referenced before assignment in enclosing scope'')
      | Some user \<Rightarrow>
          Inr (Send (ChatId user) (motivation_var fr)
                 (Some (InlineKeyboardMarkup
                    [[CallbackButton (like_emoji @ '' Like'') ''like_daily'',
                      SwitchInlineButton (share_emoji @ '' Ulashish'') (motivation_var fr)]]))))"

text \<open>
  The loop \<^verbatim>\<open>for user in users\<close>: each round binds \<^verbatim>\<open>user\<close> in the frame and queues one
  more callback. It returns the callbacks queued and the frame as the loop leaves it.
\<close>

fun daily_loop :: "int list \<Rightarrow> frame \<Rightarrow> (frame \<Rightarrow> exn + event) list \<times> frame" where
  "daily_loop [] fr = ([], fr)"
| "daily_loop (user # rest) fr =
     (let (queued, fr') = daily_loop rest (fr\<lparr>user_var := Some user\<rparr>)
      in (daily_callback # queued, fr'))"

text \<open>
  \<^verbatim>\<open>random.choice(seq)\<close> is \<^verbatim>\<open>seq[randbelow(len(seq))]\<close>; the index is reduced modulo
  the length so that any function can stand for the random source.
\<close>

definition random_choice :: "services \<Rightarrow> 'a list \<Rightarrow> 'a" where
  "random_choice srv xs = xs ! (randbelow srv (length xs) mod length xs)"

text \<open>
  \<^verbatim>\<open>send_daily_motivation\<close> reads the store and writes nothing to it. Its result is the
  list of callbacks it has queued and the frame they share.
\<close>

definition send_daily_motivation ::
  "services \<Rightarrow> db \<Rightarrow> (frame \<Rightarrow> exn + event) list \<times> frame option" where
  "send_daily_motivation srv d =
     (let pool = select_due (today srv) d
      in if pool \<noteq> [] then
           (let motivation = random_choice srv pool;
                active = select_active_users d;
                (queued, fr) = daily_loop active \<lparr>user_var = None, motivation_var = motivation\<rparr>
            in (queued, Some fr))
         else ([], None))"

text \<open>The job queue then runs each queued callback.\<close>

definition run_queued :: "(frame \<Rightarrow> exn + event) list \<times> frame option \<Rightarrow> (exn + event) list" where
  "run_queued q =
     (case snd q of
        None \<Rightarrow> []
      | Some fr \<Rightarrow> map (\<lambda>callback. callback fr) (fst q))"

text \<open>
  The timer, from the library \<^verbatim>\<open>schedule\<close>. A job holds the time of its next run and a
  function of no argument, which may change the state \<open>'w\<close> of the program and returns a
  value. \<^verbatim>\<open>run_pending()\<close> calls the function of a job that is due, drops the value it
  returns and sets the next run; how the library computes the next run is the parameter
  \<open>reschedule\<close>.
\<close>

record ('w, 'r) job =
  next_run :: int
  job_func :: "'w \<Rightarrow> 'r \<times> 'w"

definition run_pending ::
  "(int \<Rightarrow> int) \<Rightarrow> int \<Rightarrow> ('w, 'r) job \<Rightarrow> 'w \<Rightarrow> ('w, 'r) job \<times> 'w" where
  "run_pending reschedule now j w =
     (if next_run j \<le> now
      then (let (ret, w') = job_func j w in (j\<lparr>next_run := reschedule now\<rparr>, w'))
      else (j, w))"

text \<open>
  \<^verbatim>\<open>run_scheduler\<close> loops forever: \<^verbatim>\<open>schedule.run_pending()\<close>, then a sleep of 60
  seconds. Its first rounds are modelled, one for each clock reading of the list.
\<close>

fun run_scheduler ::
  "(int \<Rightarrow> int) \<Rightarrow> int list \<Rightarrow> ('w, 'r) job \<Rightarrow> 'w \<Rightarrow> ('w, 'r) job \<times> 'w" where
  "run_scheduler reschedule [] j w = (j, w)"
| "run_scheduler reschedule (now # later) j w =
     (let (j', w') = run_pending reschedule now j w
      in run_scheduler reschedule later j' w')"

text \<open>
  The registration \<^verbatim>\<open>schedule.every().day.at("08:00").do(lambda: send_daily_motivation)\<close>:
  the function of the job is a lambda that returns the function
  \<^verbatim>\<open>send_daily_motivation\<close> as a value. It does not apply it, so it leaves the state as
  it is. \<open>first\<close> is the first 08:00 after the start.
\<close>

definition daily_registration ::
  "int \<Rightarrow> ('w, services \<Rightarrow> db \<Rightarrow> (frame \<Rightarrow> exn + event) list \<times> frame option) job" where
  "daily_registration first =
     \<lparr>next_run = first, job_func = (\<lambda>w. (send_daily_motivation, w))\<rparr>"

section \<open>main_bot_code.py: the store and the handlers\<close>

text \<open>
  The tables \<^verbatim>\<open>users\<close> and \<^verbatim>\<open>conversations\<close> of \<^verbatim>\<open>bot_database.db\<close>, rows in the
  order of their INTEGER PRIMARY KEY as before.
\<close>

record user_bc =
  user_id_bc :: int
  username_bc :: string
  first_name :: string
  last_name :: string
  is_admin :: int
  joined_date :: string
  last_active :: string

record conversation =
  conversation_id :: int
  conversation_user :: int
  message :: string
  response :: string
  timestamp :: string

record database =
  users_bc :: "user_bc list"
  conversations :: "conversation list"
  conversations_seq :: int

text \<open>The three states of \<^verbatim>\<open>AdminStates\<close>; \<open>fsm\<close> holds the state of each user, if any.\<close>

datatype AdminStates = waiting_for_admin_id | waiting_for_admin_action | waiting_for_message

record world_bc =
  database :: database
  fsm :: "int \<rightharpoonup> AdminStates"

text \<open>\<^verbatim>\<open>message.from_user\<close>.\<close>

record from_user =
  from_id :: int
  from_username :: "string option"
  from_first_name :: "string option"
  from_last_name :: "string option"

definition or_empty :: "string option \<Rightarrow> string" where
  "or_empty x = (case x of None \<Rightarrow> [] | Some s \<Rightarrow> s)"

text \<open>
  \<^verbatim>\<open>save_user\<close>: INSERT OR IGNORE of a row with the defaults (\<^verbatim>\<open>is_admin = 0\<close>), which
  goes to its place in the order of ids, then
  \<^verbatim>\<open>UPDATE users SET last_active = ? WHERE user_id = ?\<close>.
\<close>

definition save_user :: "services \<Rightarrow> from_user \<Rightarrow> database \<Rightarrow> database" where
  "save_user srv user d =
     (let inserted =
            (if \<exists>u \<in> set (users_bc d). user_id_bc u = from_id user then users_bc d
             else insort_key user_id_bc
                    \<lparr>user_id_bc = from_id user, username_bc = or_empty (from_username user),
                     first_name = or_empty (from_first_name user),
                     last_name = or_empty (from_last_name user), is_admin = 0,
                     joined_date = current_time srv, last_active = current_time srv\<rparr>
                    (users_bc d))
      in d\<lparr>users_bc := map (\<lambda>u. if user_id_bc u = from_id user
                                 then u\<lparr>last_active := current_time srv\<rparr> else u) inserted\<rparr>)"

text \<open>\<^verbatim>\<open>save_conversation\<close>.\<close>

definition save_conversation :: "services \<Rightarrow> int \<Rightarrow> string \<Rightarrow> string \<Rightarrow> database \<Rightarrow> database" where
  "save_conversation srv uid msg resp d =
     (let new_id = 1 + fold max (map conversation_id (conversations d)) (conversations_seq d)
      in d\<lparr>conversations := conversations d @
               [\<lparr>conversation_id = new_id, conversation_user = uid, message = msg,
                 response = resp, timestamp = current_time srv\<rparr>],
           conversations_seq := new_id\<rparr>)"

text \<open>Emoji of the labels and messages, as UTF-8.\<close>

definition crown :: string where "crown = [CHR 0xF0, CHR 0x9F, CHR 0x91, CHR 0x91]"
definition bar_chart :: string where "bar_chart = [CHR 0xF0, CHR 0x9F, CHR 0x93, CHR 0x8A]"
definition bust :: string where "bust = [CHR 0xF0, CHR 0x9F, CHR 0x91, CHR 0xA4]"
definition no_entry :: string where "no_entry = [CHR 0xF0, CHR 0x9F, CHR 0x9A, CHR 0xAB]"
definition memo :: string where "memo = [CHR 0xF0, CHR 0x9F, CHR 0x93, CHR 0x9D]"
definition busts :: string where "busts = [CHR 0xF0, CHR 0x9F, CHR 0x91, CHR 0xA5]"
definition link :: string where "link = [CHR 0xF0, CHR 0x9F, CHR 0x94, CHR 0x97]"
definition loudspeaker :: string where "loudspeaker = [CHR 0xF0, CHR 0x9F, CHR 0x93, CHR 0xA2]"
definition check_mark :: string where "check_mark = [CHR 0xE2, CHR 0x9C, CHR 0x85]"
definition cross_mark :: string where "cross_mark = [CHR 0xE2, CHR 0x9D, CHR 0x8C]"

definition get_subscription_keyboard :: "config_bc \<Rightarrow> markup" where
  "get_subscription_keyboard cfg =
     InlineKeyboardMarkup
       [[UrlButton ''Kanalga a'zo bo'lish''
           (''https://t.me/'' @ filter (\<lambda>c. c \<noteq> CHR ''@'') (REQUIRED_CHANNEL_ID cfg))],
        [UrlButton ''Guruhga qo'shilish''
           (''https://t.me/'' @ filter (\<lambda>c. c \<noteq> CHR ''@'') (REQUIRED_GROUP_ID cfg))],
        [CallbackButton ''A'zolikni tekshirish'' ''check_subscription'']]"

text \<open>
  The test of the decorator \<^verbatim>\<open>admin_required\<close>: the sender's id as a string is in
  \<^verbatim>\<open>ADMIN_IDS\<close>, or the row that \<^verbatim>\<open>SELECT is_admin FROM users WHERE user_id = ?\<close>
  finds for that string has \<^verbatim>\<open>is_admin == 1\<close>.
\<close>

definition is_authorised :: "config_bc \<Rightarrow> database \<Rightarrow> int \<Rightarrow> bool" where
  "is_authorised cfg d uid =
     (str_int uid \<in> set (ADMIN_IDS_bc cfg) \<or>
      (case filter (\<lambda>u. sqlite_eq (user_id_bc u) (str_int uid)) (users_bc d) of
         [] \<Rightarrow> False
       | u # _ \<Rightarrow> is_admin u = 1))"

definition admin_required ::
  "config_bc \<Rightarrow> int \<Rightarrow> (world_bc \<Rightarrow> world_bc run) \<Rightarrow> world_bc \<Rightarrow> world_bc run" where
  "admin_required cfg uid func w =
     (if is_authorised cfg (database w) uid then func w
      else \<lparr>raised = None, events = [Reply ''Bu funksiya faqat adminlar uchun.'' None], final = w\<rparr>)"

definition stop_command :: "world_bc \<Rightarrow> world_bc run" where
  "stop_command w =
     \<lparr>raised = None,
      events = [Reply ''Bot to'xtatildi. Qayta ishlash uchun /start buyrug'ini yuboring.'' None],
      final = w\<rparr>"

text \<open>\<^verbatim>\<open>UPDATE users SET is_admin = 0 WHERE user_id = ?\<close>, the id bound as text.\<close>

definition clear_admin :: "string \<Rightarrow> database \<Rightarrow> database" where
  "clear_admin admin_id d =
     d\<lparr>users_bc := map (\<lambda>u. if sqlite_eq (user_id_bc u) admin_id then u\<lparr>is_admin := 0\<rparr> else u)
                        (users_bc d)\<rparr>"

text \<open>
  \<^verbatim>\<open>remove_admin_process\<close>, the handler of the state \<^verbatim>\<open>waiting_for_admin_action\<close>. Its
  comment reads: admin cannot remove themselves or super admins from .env. Both tests
  compare strings. Nothing in the body of its \<^verbatim>\<open>try\<close> raises in this model.
\<close>

definition remove_admin_process :: "config_bc \<Rightarrow> int \<Rightarrow> string \<Rightarrow> world_bc \<Rightarrow> world_bc run" where
  "remove_admin_process cfg uid txt =
     admin_required cfg uid (\<lambda>w.
       (let admin_id = py_strip txt
        in if str_int uid = admin_id then
             \<lparr>raised = None,
              events = [Reply ''Siz o'zingizni adminlikdan olib tashlay olmaysiz.'' None],
              final = w\<lparr>fsm := (fsm w)(uid := None)\<rparr>\<rparr>
           else if admin_id \<in> set (ADMIN_IDS_bc cfg) then
             \<lparr>raised = None,
              events = [Reply ''Asosiy adminlarni olib tashlab bo'lmaydi.'' None],
              final = w\<lparr>fsm := (fsm w)(uid := None)\<rparr>\<rparr>
           else
             \<lparr>raised = None,
              events = [Reply (''Foydalanuvchi (ID: '' @ admin_id @ '') adminlikdan olindi.'') None],
              final = w\<lparr>database := clear_admin admin_id (database w),
                         fsm := (fsm w)(uid := None)\<rparr>\<rparr>))"

text \<open>
  The loop of \<^verbatim>\<open>broadcast_message\<close>, with its two counters and the events so far.
\<close>

fun broadcast_message_loop ::
  "services \<Rightarrow> string \<Rightarrow> int list \<Rightarrow> nat \<times> nat \<times> event list \<Rightarrow> nat \<times> nat \<times> event list" where
  "broadcast_message_loop srv msg [] acc = acc"
| "broadcast_message_loop srv msg (user # rest) (sent_count, error_count, evs) =
     (case send_message srv (ChatId user) msg of
        None \<Rightarrow>
          broadcast_message_loop srv msg rest
            (sent_count + 1, error_count, evs @ [Send (ChatId user) msg None])
      | Some e \<Rightarrow>
          broadcast_message_loop srv msg rest
            (sent_count, error_count + 1,
             evs @ [Send (ChatId user) msg None,
                    Log (''Error sending message to '' @ str_int user @ '': '' @ str_exn e)]))"

text \<open>The closing report of \<^verbatim>\<open>broadcast_message\<close>, with both counts.\<close>

definition broadcast_report :: "nat \<Rightarrow> nat \<Rightarrow> string" where
  "broadcast_report sent_count error_count =
     ''Xabar yuborish yakunlandi.'' @ [CHR 0x0A] @
     check_mark @ '' Yuborildi: '' @ str_nat sent_count @ [CHR 0x0A] @
     cross_mark @ '' Xatolik: '' @ str_nat error_count"

text \<open>
  \<^verbatim>\<open>broadcast_message\<close>, the handler of the state \<^verbatim>\<open>waiting_for_message\<close>: it sends to
  every row of \<^verbatim>\<open>users\<close>.
\<close>

definition broadcast_message ::
  "config_bc \<Rightarrow> services \<Rightarrow> int \<Rightarrow> string \<Rightarrow> world_bc \<Rightarrow> world_bc run" where
  "broadcast_message cfg srv uid broadcast_text =
     admin_required cfg uid (\<lambda>w.
       (let recipients = map user_id_bc (users_bc (database w));
            (sent_count, error_count, evs) =
               broadcast_message_loop srv
                 (loudspeaker @ '' ADMIN XABARI:'' @ [CHR 0x0A, CHR 0x0A] @ broadcast_text)
                 recipients (0, 0, [Reply ''Xabar yuborish boshlandi...'' None])
        in \<lparr>raised = None,
            events = evs @ [Reply (broadcast_report sent_count error_count) None],
            final = w\<lparr>fsm := (fsm w)(uid := None)\<rparr>\<rparr>))"


text \<open>The labels that \<^verbatim>\<open>process_message\<close> passes over.\<close>

definition special_commands :: "string list" where
  "special_commands =
     [crown @ '' Admin paneli'', bar_chart @ '' Admin statistikasi'', bust @ '' Admin qo'shish'',
      no_entry @ '' Adminlikdan olish'', memo @ '' Barcha foydalanuvchilarga xabar'',
      busts @ '' Oddiy foydalanuvchi rejimi'', link @ '' Saytga o'tish'']"

text \<open>
  \<^verbatim>\<open>process_message\<close>, the handler of any other message. It saves the user, then asks
  the gate, then relays the text to the completion service inside a \<^verbatim>\<open>try\<close>; an
  exception of that part is logged and answered with a fixed text. \<open>chat_id\<close> is
  \<^verbatim>\<open>message.chat.id\<close>. The events begin with what the gate has logged.
\<close>

definition process_message ::
  "config_bc \<Rightarrow> services \<Rightarrow> from_user \<Rightarrow> int \<Rightarrow> string \<Rightarrow> world_bc \<Rightarrow> world_bc run" where
  "process_message cfg srv user chat_id user_message w =
     (let w1 = w\<lparr>database := save_user srv user (database w)\<rparr>;
          failed = (\<lambda>evs e.
             \<lparr>raised = None,
              events = evs @ [Log (''Error processing message: '' @ str_exn e),
                              Reply ''Xatolik yuz berdi. Iltimos, keyinroq qayta urinib ko'ring.'' None],
              final = w1\<rparr>)
      in case check_subscription cfg srv (from_id user) of
           Inl e \<Rightarrow> \<lparr>raised = Some e, events = [], final = w1\<rparr>
         | Inr (logged, subscribed) \<Rightarrow>
             if \<not> subscribed then
               \<lparr>raised = None,
                events = logged @
                         [Reply ''Botdan foydalanish uchun quyidagi kanal va guruhga a'zo bo'ling:''
                                (Some (get_subscription_keyboard cfg))],
                final = w1\<rparr>
             else if user_message \<in> set special_commands then
               \<lparr>raised = None, events = logged, final = w1\<rparr>
             else
               (case send_chat_action srv chat_id of
                  Some e \<Rightarrow> failed (logged @ [ChatAction chat_id]) e
                | None \<Rightarrow>
                    (case generate_content srv user_message of
                       Inl e \<Rightarrow> failed (logged @ [ChatAction chat_id]) e
                     | Inr response_text \<Rightarrow>
                         \<lparr>raised = None,
                          events = logged @ [ChatAction chat_id, Reply response_text None],
                          final = w1\<lparr>database :=
                                     save_conversation srv (from_id user) user_message response_text
                                       (database w1)\<rparr>\<rparr>)))"

section \<open>Observations and example inputs\<close>

text \<open>What the claims look at: the id, status and schedule date of each submission.\<close>

definition status_table :: "db \<Rightarrow> (int \<times> string \<times> string option) list" where
  "status_table d = map (\<lambda>m. (motivation_id m, status m, schedule_date m)) (motivations d)"

text \<open>The \<^verbatim>\<open>is_active\<close> flag of a user of \<^verbatim>\<open>main.py\<close>, if the user has a row.\<close>

definition is_active_of :: "int \<Rightarrow> db \<Rightarrow> int option" where
  "is_active_of uid d =
     (case filter (\<lambda>u. user_id u = uid) (users d) of [] \<Rightarrow> None | u # _ \<Rightarrow> Some (is_active u))"

text \<open>The \<^verbatim>\<open>is_admin\<close> flag of each user of \<^verbatim>\<open>main_bot_code.py\<close>.\<close>

definition admin_table :: "database \<Rightarrow> (int \<times> int) list" where
  "admin_table d = map (\<lambda>u. (user_id_bc u, is_admin u)) (users_bc d)"

text \<open>The sends among the events, and the replies among them.\<close>

fun is_send :: "event \<Rightarrow> bool" where
  "is_send (Send c t k) = True"
| "is_send _ = False"

fun is_reply :: "event \<Rightarrow> bool" where
  "is_reply (Reply t k) = True"
| "is_reply _ = False"

text \<open>The number of users of a list to whom a message cannot be delivered.\<close>

definition failures :: "services \<Rightarrow> string \<Rightarrow> int list \<Rightarrow> nat" where
  "failures srv msg recipients =
     length (filter (\<lambda>u. send_message srv (ChatId u) msg \<noteq> None) recipients)"

text \<open>
  Example inputs. User 1 is a member of the channel and of the group, user 2 has left the
  group, and the lookup of user 3 fails. Messages to user 2 cannot be delivered. The
  completion service is out of quota. User 100 is the admin of \<^verbatim>\<open>main.py\<close>.
\<close>

definition example_config :: config where
  "example_config =
     \<lparr>CHANNEL_ID = ''@channel'', GROUP_ID = ''@group'', WEBSITE_URL = ''https://site.example'',
      ADMIN_IDS = [100], MOTIVATION_GROUP_ID = ''@moderators''\<rparr>"

definition example_services :: services where
  "example_services =
     \<lparr>get_chat_member = (\<lambda>chat_id uid.
          if uid = 1 then Inr ''member''
          else if uid = 2 then (if chat_id = ''@group'' then Inr ''left'' else Inr ''member'')
          else Inl (TelegramError ''Bad Request: user not found'')),
      send_message = (\<lambda>c t.
          if c = ChatId 2 then Some (TelegramError ''Forbidden: bot was blocked by the user'')
          else None),
      send_chat_action = (\<lambda>c. None),
      generate_content = (\<lambda>prompt. Inl (CompletionError ''429 quota exceeded'')),
      randbelow = (\<lambda>n. 0),
      today = ''2024-05-01'',
      date_after = (\<lambda>n. ''2024-05-02''),
      current_time = ''2024-05-01 08:00:00''\<rparr>"

text \<open>Three active users and one submission, in the status given.\<close>

definition example_world :: "string \<Rightarrow> world" where
  "example_world st =
     \<lparr>store =
        \<lparr>users = [\<lparr>user_id = 1, username = Some ''ann'', is_active = 1\<rparr>,
                  \<lparr>user_id = 2, username = None, is_active = 1\<rparr>,
                  \<lparr>user_id = 3, username = Some ''cho'', is_active = 1\<rparr>],
         motivations = [\<lparr>motivation_id = 1, motivation_text = ''Never give up'',
                         submitted_by = 1, status = st, schedule_date = None,
                         message_id = None\<rparr>],
         motivations_seq = 1\<rparr>,
      user_data = (\<lambda>uid. if uid = 1 then [''ai_mode'' \<mapsto> True] else Map.empty)\<rparr>"

text \<open>
  For \<^verbatim>\<open>main_bot_code.py\<close>: user 999 is on the list of \<^verbatim>\<open>ADMIN_IDS\<close>; user 123 was made
  an admin through the bot; both have a row with \<^verbatim>\<open>is_admin = 1\<close>, user 2 is no admin.
\<close>

definition example_config_bc :: config_bc where
  "example_config_bc =
     \<lparr>REQUIRED_CHANNEL_ID = ''@channel'', REQUIRED_GROUP_ID = ''@group'', ADMIN_IDS_bc = [''999'']\<rparr>"

definition example_world_bc :: world_bc where
  "example_world_bc =
     \<lparr>database =
        \<lparr>users_bc =
           [\<lparr>user_id_bc = 2, username_bc = ''eve'', first_name = ''Eve'', last_name = [],
             is_admin = 0, joined_date = ''2024-04-01 10:00:00'', last_active = ''2024-04-30 10:00:00''\<rparr>,
            \<lparr>user_id_bc = 123, username_bc = ''dan'', first_name = ''Dan'', last_name = [],
             is_admin = 1, joined_date = ''2024-04-01 10:00:00'', last_active = ''2024-04-30 10:00:00''\<rparr>,
            \<lparr>user_id_bc = 999, username_bc = ''root'', first_name = ''Root'', last_name = [],
             is_admin = 1, joined_date = ''2024-04-01 10:00:00'', last_active = ''2024-04-30 10:00:00''\<rparr>],
         conversations = [], conversations_seq = 0\<rparr>,
      fsm = [123 \<mapsto> waiting_for_admin_action]\<rparr>"

section \<open>Properties\<close>

lemmas parse_defs = startswith_def item_def py_int_def signed_value_def c_isspace_def
  is_digit_def digits_value_def digit_value_def sqlite_eq_def sqlite_integer_def py_strip_def
  py_isspace_def

lemmas store_defs = update_status_def select_text_def select_active_users_def status_table_def
  insert_motivation_def next_motivation_id_def deactivate_user_def insert_or_replace_user_def
  is_active_of_def update_schedule_def select_due_def

lemmas example_defs = example_config_def example_services_def example_world_def
  example_config_bc_def example_world_bc_def

subsection \<open>The membership gate fails closed\<close>

text \<open>
  Claim C2. For every user identifier, the gate of either bot returns a boolean and never
  an exception, and the boolean is true exactly when the channel lookup and the group
  lookup both return (neither raises) and both statuses are among member, administrator
  and creator. So a lookup that raises, or a status outside that set, gives false. The
  gate logs one line when a lookup raises, for the first lookup that does, and nothing
  otherwise.
\<close>

theorem membership_gate_fails_closed:
  "check_membership cfg srv uid =
     Inr (case get_chat_member srv (CHANNEL_ID cfg) uid of
            Inl e \<Rightarrow> [Log (''Error checking membership: '' @ str_exn e)]
          | Inr cs \<Rightarrow>
              (case get_chat_member srv (GROUP_ID cfg) uid of
                 Inl e \<Rightarrow> [Log (''Error checking membership: '' @ str_exn e)]
               | Inr gs \<Rightarrow> []),
          \<exists>cs gs. get_chat_member srv (CHANNEL_ID cfg) uid = Inr cs \<and>
                  get_chat_member srv (GROUP_ID cfg) uid = Inr gs \<and>
                  cs \<in> {''member'', ''administrator'', ''creator''} \<and>
                  gs \<in> {''member'', ''administrator'', ''creator''})
   \<and> check_subscription cfg' srv uid =
     Inr (case get_chat_member srv (REQUIRED_CHANNEL_ID cfg') uid of
            Inl e \<Rightarrow> [Log (''Error checking subscription: '' @ str_exn e)]
          | Inr cs \<Rightarrow>
              (case get_chat_member srv (REQUIRED_GROUP_ID cfg') uid of
                 Inl e \<Rightarrow> [Log (''Error checking subscription: '' @ str_exn e)]
               | Inr gs \<Rightarrow> []),
          \<exists>cs gs. get_chat_member srv (REQUIRED_CHANNEL_ID cfg') uid = Inr cs \<and>
                  get_chat_member srv (REQUIRED_GROUP_ID cfg') uid = Inr gs \<and>
                  cs \<in> {''member'', ''administrator'', ''creator''} \<and>
                  gs \<in> {''member'', ''administrator'', ''creator''})"
  by (simp add: check_membership_def check_subscription_def split: sum.splits)

text \<open>A gate that returns true has logged nothing.\<close>

lemma gate_true_logs_nothing:
  "check_membership cfg srv uid = Inr (logged, True) \<Longrightarrow> logged = []"
  "check_subscription cfg' srv uid = Inr (logged, True) \<Longrightarrow> logged = []"
  by (auto simp: check_membership_def check_subscription_def split: sum.splits)

subsection \<open>The status of a submission\<close>

lemma status_table_update:
  "status_table (update_status st mid d) =
     map (\<lambda>(i, s, sd). (i, if i = mid then st else s, sd)) (status_table d)"
  by (simp add: status_table_def update_status_def)

lemma select_text_update:
  "select_text mid (update_status st mid' d) = select_text mid d"
proof -
  have "map motivation_text (filter (\<lambda>m. motivation_id m = mid)
          (map (\<lambda>m. if motivation_id m = mid' then m\<lparr>status := st\<rparr> else m) ms))
        = map motivation_text (filter (\<lambda>m. motivation_id m = mid) ms)" for ms
    by (induction ms) auto
  from this[of "motivations d"] show ?thesis
    by (auto simp: select_text_def update_status_def split: list.splits)
qed

lemma startswith_reject:
  "startswith data ''reject_'' \<Longrightarrow> data \<noteq> ''check_membership'' \<and> \<not> startswith data ''approve_''"
  by (cases data) (auto simp: startswith_def)

lemma startswith_approve:
  "startswith data ''approve_'' \<Longrightarrow> data \<noteq> ''check_membership''"
  by (cases data) (auto simp: startswith_def)

text \<open>
  Claim C1, as the code has it. The claim says that a second approve or reject action on
  a submission is refused. The UPDATE statements of \<^verbatim>\<open>button_callback\<close> carry no
  condition on the current status: a press of a reject button sets the status of the
  submission it names to rejected, and a press of an approve button sets the status of an
  existing submission to approved, whatever the status was before, so a later action
  overwrites an earlier one. Neither changes a schedule date or another submission.
\<close>

theorem approve_reject_overwrite_status:
  "(startswith data ''reject_'' \<and> item (split_on CHR ''_'' data) 1 = Inr piece \<and>
    py_int piece = Inr mid
      \<longrightarrow> status_table (store (final (button_callback cfg srv uid mt data w))) =
           map (\<lambda>(i, s, sd). (i, if i = mid then ''rejected'' else s, sd)) (status_table (store w)))
   \<and> (startswith data' ''approve_'' \<and> item (split_on CHR ''_'' data') 1 = Inr piece' \<and>
       py_int piece' = Inr mid' \<and> select_text mid' (store w') = Some txt
      \<longrightarrow> status_table (store (final (button_callback cfg srv uid mt data' w'))) =
           map (\<lambda>(i, s, sd). (i, if i = mid' then ''approved'' else s, sd))
               (status_table (store w')))"
proof (intro conjI impI)
  assume a: "startswith data ''reject_'' \<and> item (split_on CHR ''_'' data) 1 = Inr piece \<and>
             py_int piece = Inr mid"
  then have "button_callback cfg srv uid mt data w = reject_branch data w"
    using startswith_reject[of data] by (simp add: button_callback_def)
  with a show "status_table (store (final (button_callback cfg srv uid mt data w))) =
           map (\<lambda>(i, s, sd). (i, if i = mid then ''rejected'' else s, sd)) (status_table (store w))"
    by (simp add: reject_branch_def status_table_update)
next
  assume a: "startswith data' ''approve_'' \<and> item (split_on CHR ''_'' data') 1 = Inr piece' \<and>
             py_int piece' = Inr mid' \<and> select_text mid' (store w') = Some txt"
  then have "button_callback cfg srv uid mt data' w' = approve_branch srv data' w'"
    using startswith_approve[of data'] by (simp add: button_callback_def)
  with a show "status_table (store (final (button_callback cfg srv uid mt data' w'))) =
           map (\<lambda>(i, s, sd). (i, if i = mid' then ''approved'' else s, sd))
               (status_table (store w'))"
    by (simp add: approve_branch_def status_table_update select_text_update Let_def)
qed

text \<open>
  Witness for C1: a reject on the approved submission 1 and an approve on the rejected
  submission 1, through the theorem.
\<close>

theorem approve_reject_overwrite_status_witness:
  "status_table (store (final (button_callback example_config example_services 100 [] ''reject_1''
       (example_world ''approved'')))) = [(1, ''rejected'', None)]
   \<and> status_table (store (final (button_callback example_config example_services 100 [] ''approve_1''
       (example_world ''rejected'')))) = [(1, ''approved'', None)]"
proof -
  have r: "startswith ''reject_1'' ''reject_'' \<and> item (split_on CHR ''_'' ''reject_1'') 1 = Inr ''1''
           \<and> py_int ''1'' = Inr 1"
    by (simp add: parse_defs)
  have a: "startswith ''approve_1'' ''approve_'' \<and> item (split_on CHR ''_'' ''approve_1'') 1 = Inr ''1''
           \<and> py_int ''1'' = Inr 1
           \<and> select_text 1 (store (example_world ''rejected'')) = Some ''Never give up''"
    by (simp add: parse_defs select_text_def example_world_def)
  have t: "status_table (store (example_world st)) = [(1, st, None)]" for st
    by (simp add: status_table_def example_world_def)
  from approve_reject_overwrite_status
         [of "''reject_1''" "''1''" 1 example_config example_services 100 "[]"
             "example_world ''approved''" "''approve_1''" "''1''" 1 "example_world ''rejected''"
             "''Never give up''"] r a
  show ?thesis
    by (simp add: t)
qed

text \<open>
  Counterexample to C1 as stated: submission 1 is pending; the admin presses its reject
  button and then its approve button. The second action is applied: the status goes from
  pending to rejected and then from rejected to approved.
\<close>

theorem second_action_changes_status:
  "status_table (store (final (button_callback example_config example_services 100 [] ''reject_1''
       (example_world ''pending'')))) = [(1, ''rejected'', None)]
   \<and> status_table (store (final (button_callback example_config example_services 100 [] ''approve_1''
       (final (button_callback example_config example_services 100 [] ''reject_1''
          (example_world ''pending'')))))) = [(1, ''approved'', None)]"
  by (simp add: button_callback_def approve_branch_def reject_branch_def parse_defs store_defs
        example_defs Let_def)

subsection \<open>The schedule action\<close>

lemma timedelta_unbound:
  "load_global ''timedelta'' = Inl (NameError ''name 'timedelta' is not defined'')"
  by (simp add: load_global_def module_globals_def)

text \<open>
  Claim C8 fails on the code. The claim says that a schedule action on a pending
  submission sets it to approved with a schedule date and completes without raising.
  \<^verbatim>\<open>main.py\<close> imports \<^verbatim>\<open>datetime\<close> only, so the branch raises on every data it is
  given and leaves the state as it was: for the button "1 kun" of the pending
  submission 1 the exception is a \<^verbatim>\<open>NameError\<close> on \<^verbatim>\<open>timedelta\<close>, and the submission
  stays pending with no schedule date.
\<close>

theorem schedule_action_raises_name_error:
  "raised (schedule_branch srv data w) \<noteq> None \<and> final (schedule_branch srv data w) = w
   \<and> raised (button_callback example_config example_services 100 [] ''schedule_1_1''
               (example_world ''pending''))
       = Some (NameError ''name 'timedelta' is not defined'')
   \<and> status_table (store (final (button_callback example_config example_services 100 []
               ''schedule_1_1'' (example_world ''pending'')))) = [(1, ''pending'', None)]"
proof -
  have "raised (schedule_branch srv data w) \<noteq> None \<and> final (schedule_branch srv data w) = w"
    by (simp add: schedule_branch_def timedelta_unbound split: sum.splits)
  moreover have "button_callback example_config example_services 100 [] ''schedule_1_1''
                   (example_world ''pending'')
                 = \<lparr>raised = Some (NameError ''name 'timedelta' is not defined''),
                    events = [AnswerCallback], final = example_world ''pending''\<rparr>"
    by (simp add: button_callback_def schedule_branch_def timedelta_unbound parse_defs)
  ultimately show ?thesis
    by (simp add: status_table_def example_world_def)
qed

subsection \<open>Stopping and starting\<close>

lemma filter_deactivate:
  "filter (\<lambda>u. user_id u = uid)
     (map (\<lambda>u. if user_id u = uid then u\<lparr>is_active := 0\<rparr> else u) us)
   = map (\<lambda>u. u\<lparr>is_active := 0\<rparr>) (filter (\<lambda>u. user_id u = uid) us)"
  by (induction us) auto

lemma is_active_of_deactivate:
  "is_active_of uid (deactivate_user uid d) = map_option (\<lambda>_. 0) (is_active_of uid d)"
proof (cases "filter (\<lambda>u. user_id u = uid) (users d)")
  case Nil
  then show ?thesis
    by (simp add: is_active_of_def deactivate_user_def filter_deactivate)
next
  case (Cons u us)
  then show ?thesis
    by (simp add: is_active_of_def deactivate_user_def filter_deactivate)
qed

lemma filter_insort_new:
  "filter (\<lambda>u. user_id u = uid) us = [] \<Longrightarrow> user_id new = uid \<Longrightarrow>
   filter (\<lambda>u. user_id u = uid) (insort_key user_id new us) = [new]"
  by (induction us) (auto split: if_splits)

lemma is_active_of_insert:
  "is_active_of uid (insert_or_replace_user uid uname d) = Some 1"
  by (simp add: is_active_of_def insert_or_replace_user_def filter_insort_new
        filter_empty_conv[THEN iffD2])

lemma handle_message_users:
  "users (store (final (handle_message cfg srv sender uname txt w))) = users (store w)"
  by (simp add: handle_message_def help_command_def about_def insert_motivation_def Let_def
      split: sum.splits option.splits prod.splits)

text \<open>
  Claim C7, as the code has it. The claim says that any further message after a stop
  sets \<^verbatim>\<open>is_active\<close> back to true. In \<^verbatim>\<open>main.py\<close>, after \<^verbatim>\<open>/stop\<close> the flag of a
  registered user is 0; a text message leaves the table of users as it is, whoever sends
  it; it is \<^verbatim>\<open>/start\<close> that sets the flag to 1, as the reply to \<^verbatim>\<open>/stop\<close> says.
  \<^verbatim>\<open>main_bot_code.py\<close> keeps no such flag: its stop command leaves the state as it is.
\<close>

theorem stop_deactivates_only_start_reactivates:
  "is_active_of uid (store (final (stop uid w))) = map_option (\<lambda>_. 0) (is_active_of uid (store w))
   \<and> users (store (final (handle_message cfg srv sender uname txt w))) = users (store w)
   \<and> is_active_of uid (store (final (start cfg srv uid uname w))) = Some 1
   \<and> final (stop_command wb) = wb"
  by (simp add: handle_message_users)
     (simp add: stop_def start_def stop_command_def is_active_of_deactivate is_active_of_insert
        Let_def split: sum.splits)

text \<open>
  Counterexample to C7 as stated: user 1 stops the bot and then sends the text hello;
  the flag is 0 after the stop and still 0 after the message.
\<close>

theorem message_after_stop_keeps_inactive:
  "is_active_of 1 (store (final (stop 1 (example_world ''pending'')))) = Some 0
   \<and> is_active_of 1 (store (final (handle_message example_config example_services 1 (Some ''ann'')
        ''hello'' (final (stop 1 (example_world ''pending'')))))) = Some 0"
  by (simp add: stop_def handle_message_def store_defs example_defs split: prod.splits)

subsection \<open>Demoting an admin\<close>

text \<open>
  Claim C9 fails on the code. The claim, like the comment of \<^verbatim>\<open>remove_admin_process\<close>,
  says that an admin cannot demote themself or an admin of the static list. The two
  tests compare the text that was typed with \<^verbatim>\<open>str\<close> of the sender's id and with the
  strings of the list, while the UPDATE lets SQLite read the text as a number. User 123,
  an admin, types 0123: neither test matches and the row of user 123 loses its flag.
  Typing +999 clears the flag of user 999, who is on the static list.
\<close>

theorem padded_id_bypasses_demotion_guards:
  "is_authorised example_config_bc (database example_world_bc) 123
   \<and> admin_table (database example_world_bc) = [(2, 0), (123, 1), (999, 1)]
   \<and> admin_table (database (final (remove_admin_process example_config_bc 123 ''0123''
        example_world_bc))) = [(2, 0), (123, 0), (999, 1)]
   \<and> admin_table (database (final (remove_admin_process example_config_bc 123 ''+999''
        example_world_bc))) = [(2, 0), (123, 1), (999, 0)]"
  by (simp add: remove_admin_process_def admin_required_def is_authorised_def clear_admin_def
        admin_table_def str_int_def str_nat.simps parse_defs example_defs)

subsection \<open>Broadcasts\<close>

lemma broadcast_loop_sends:
  "filter is_send (broadcast_loop srv msg us) = map (\<lambda>u. Send (ChatId u) msg None) us
   \<and> filter is_reply (broadcast_loop srv msg us) = []"
  by (induction us) (auto split: option.splits)

lemma failures_Nil: "failures srv msg [] = 0"
  by (simp add: failures_def)

lemma failures_Cons:
  "failures srv msg (u # us) =
     (if send_message srv (ChatId u) msg = None then 0 else 1) + failures srv msg us"
  by (simp add: failures_def)

lemma failures_le: "failures srv msg us \<le> length us"
  by (simp add: failures_def)

lemma broadcast_message_loop_counts:
  "\<exists>evs'. broadcast_message_loop srv msg us (s, e, evs) =
            (s + (length us - failures srv msg us), e + failures srv msg us, evs @ evs')
          \<and> filter is_send evs' = map (\<lambda>u. Send (ChatId u) msg None) us
          \<and> filter is_reply evs' = []"
proof (induction us arbitrary: s e evs)
  case Nil
  then show ?case by (simp add: failures_Nil)
next
  case (Cons u us)
  have le: "failures srv msg us \<le> length us"
    by (rule failures_le)
  show ?case
  proof (cases "send_message srv (ChatId u) msg")
    case None
    from Cons.IH[of "s + 1" e "evs @ [Send (ChatId u) msg None]"]
    obtain evs' where
      "broadcast_message_loop srv msg us (s + 1, e, evs @ [Send (ChatId u) msg None]) =
         (s + 1 + (length us - failures srv msg us), e + failures srv msg us,
          (evs @ [Send (ChatId u) msg None]) @ evs')"
      "filter is_send evs' = map (\<lambda>u. Send (ChatId u) msg None) us"
      "filter is_reply evs' = []"
      by blast
    with None le show ?thesis
      by (intro exI[of _ "Send (ChatId u) msg None # evs'"]) (simp add: failures_Cons)
  next
    case (Some x)
    let ?l = "[Send (ChatId u) msg None,
               Log (''Error sending message to '' @ str_int u @ '': '' @ str_exn x)]"
    from Cons.IH[of s "e + 1" "evs @ ?l"]
    obtain evs' where
      "broadcast_message_loop srv msg us (s, e + 1, evs @ ?l) =
         (s + (length us - failures srv msg us), e + 1 + failures srv msg us, (evs @ ?l) @ evs')"
      "filter is_send evs' = map (\<lambda>u. Send (ChatId u) msg None) us"
      "filter is_reply evs' = []"
      by blast
    with Some le show ?thesis
      by (intro exI[of _ "?l @ evs'"]) (simp add: failures_Cons)
  qed
qed

text \<open>
  Claim C3, as the code has it. The claim says that every broadcast reports the pair of
  counts to the caller. Both bots try every recipient in turn, whatever the earlier
  sends did, and end without an exception. \<^verbatim>\<open>broadcast_message\<close> of
  \<^verbatim>\<open>main_bot_code.py\<close> counts: over \<open>N\<close> recipients of which \<open>K\<close> fail, its closing
  reply reports \<open>N - K\<close> sent and \<open>K\<close> failed. \<^verbatim>\<open>broadcast\<close> of \<^verbatim>\<open>main.py\<close> keeps no
  counts: its one reply is a fixed confirmation.
\<close>

theorem broadcast_attempts_every_recipient:
  "(uid \<in> set (ADMIN_IDS cfg) \<and> args \<noteq> [] \<longrightarrow>
      raised (broadcast cfg srv uid args w) = None \<and>
      filter is_send (events (broadcast cfg srv uid args w)) =
        map (\<lambda>u. Send (ChatId u) (join_space args) None) (select_active_users (store w)) \<and>
      filter is_reply (events (broadcast cfg srv uid args w)) =
        [Reply ''Xabar barcha foydalanuvchilarga yuborildi.'' None])
   \<and> (is_authorised cfgb (database wb) uidb \<and>
       recipients = map user_id_bc (users_bc (database wb)) \<and>
       msg = loudspeaker @ '' ADMIN XABARI:'' @ [CHR 0x0A, CHR 0x0A] @ broadcast_text \<longrightarrow>
      raised (broadcast_message cfgb srv uidb broadcast_text wb) = None \<and>
      filter is_send (events (broadcast_message cfgb srv uidb broadcast_text wb)) =
        map (\<lambda>u. Send (ChatId u) msg None) recipients \<and>
      filter is_reply (events (broadcast_message cfgb srv uidb broadcast_text wb)) =
        [Reply ''Xabar yuborish boshlandi...'' None,
         Reply (broadcast_report (length recipients - failures srv msg recipients)
                                 (failures srv msg recipients)) None])"
proof (intro conjI impI)
  assume a: "uid \<in> set (ADMIN_IDS cfg) \<and> args \<noteq> []"
  then show "raised (broadcast cfg srv uid args w) = None"
    by (simp add: broadcast_def Let_def)
  from a show "filter is_send (events (broadcast cfg srv uid args w)) =
        map (\<lambda>u. Send (ChatId u) (join_space args) None) (select_active_users (store w))"
    by (simp add: broadcast_def Let_def broadcast_loop_sends)
  from a show "filter is_reply (events (broadcast cfg srv uid args w)) =
        [Reply ''Xabar barcha foydalanuvchilarga yuborildi.'' None]"
    by (simp add: broadcast_def Let_def broadcast_loop_sends)
next
  assume a: "is_authorised cfgb (database wb) uidb \<and>
       recipients = map user_id_bc (users_bc (database wb)) \<and>
       msg = loudspeaker @ '' ADMIN XABARI:'' @ [CHR 0x0A, CHR 0x0A] @ broadcast_text"
  obtain evs' where l:
    "broadcast_message_loop srv msg recipients (0, 0, [Reply ''Xabar yuborish boshlandi...'' None]) =
       (0 + (length recipients - failures srv msg recipients), 0 + failures srv msg recipients,
        [Reply ''Xabar yuborish boshlandi...'' None] @ evs')"
    "filter is_send evs' = map (\<lambda>u. Send (ChatId u) msg None) recipients"
    "filter is_reply evs' = []"
    using broadcast_message_loop_counts[of srv msg recipients 0 0 "[Reply ''Xabar yuborish boshlandi...'' None]"]
    by blast
  have r: "broadcast_message cfgb srv uidb broadcast_text wb =
       \<lparr>raised = None,
        events = ([Reply ''Xabar yuborish boshlandi...'' None] @ evs') @
                 [Reply (broadcast_report (length recipients - failures srv msg recipients)
                                          (failures srv msg recipients)) None],
        final = wb\<lparr>fsm := (fsm wb)(uidb := None)\<rparr>\<rparr>"
    using a l(1) by (simp add: broadcast_message_def admin_required_def Let_def)
  show "raised (broadcast_message cfgb srv uidb broadcast_text wb) = None"
    by (simp add: r)
  show "filter is_send (events (broadcast_message cfgb srv uidb broadcast_text wb)) =
        map (\<lambda>u. Send (ChatId u) msg None) recipients"
    by (simp add: r l(2))
  show "filter is_reply (events (broadcast_message cfgb srv uidb broadcast_text wb)) =
        [Reply ''Xabar yuborish boshlandi...'' None,
         Reply (broadcast_report (length recipients - failures srv msg recipients)
                                 (failures srv msg recipients)) None]"
    by (simp add: r l(3))
qed

text \<open>
  Witness for C3: admin 100 broadcasts to the three active users of \<^verbatim>\<open>main.py\<close>, and
  admin 123 to the three users of \<^verbatim>\<open>main_bot_code.py\<close>, of whom user 2 cannot be
  reached: the report is 2 sent, 1 failed.
\<close>

theorem broadcast_attempts_every_recipient_witness:
  "filter is_send (events (broadcast example_config example_services 100 [''Hello'', ''all'']
       (example_world ''pending''))) =
     [Send (ChatId 1) ''Hello all'' None, Send (ChatId 2) ''Hello all'' None,
      Send (ChatId 3) ''Hello all'' None]
   \<and> filter is_reply (events (broadcast_message example_config_bc example_services 123 ''Hello''
       example_world_bc)) =
     [Reply ''Xabar yuborish boshlandi...'' None, Reply (broadcast_report 2 1) None]"
proof -
  have h1: "100 \<in> set (ADMIN_IDS example_config) \<and> [''Hello'', ''all''] \<noteq> []"
    by (simp add: example_config_def)
  have h2: "is_authorised example_config_bc (database example_world_bc) 123 \<and>
        map user_id_bc (users_bc (database example_world_bc)) =
          map user_id_bc (users_bc (database example_world_bc)) \<and>
        loudspeaker @ '' ADMIN XABARI:'' @ [CHR 0x0A, CHR 0x0A] @ ''Hello'' =
        loudspeaker @ '' ADMIN XABARI:'' @ [CHR 0x0A, CHR 0x0A] @ ''Hello''"
    by (simp add: is_authorised_def str_int_def str_nat.simps parse_defs example_defs)
  have f: "failures example_services (loudspeaker @ '' ADMIN XABARI:'' @ [CHR 0x0A, CHR 0x0A] @ ''Hello'')
             (map user_id_bc (users_bc (database example_world_bc))) = 1 \<and>
           length (users_bc (database example_world_bc)) = 3"
    by (simp add: failures_def example_services_def example_world_bc_def)
  have u: "select_active_users (store (example_world ''pending'')) = [1, 2, 3]"
    by (simp add: select_active_users_def example_world_def)
  from broadcast_attempts_every_recipient[of 100 example_config "[''Hello'', ''all'']" example_services "example_world ''pending''"
            example_config_bc example_world_bc 123
            "map user_id_bc (users_bc (database example_world_bc))"
            "loudspeaker @ '' ADMIN XABARI:'' @ [CHR 0x0A, CHR 0x0A] @ ''Hello''" "''Hello''"] h1 h2 f
  show ?thesis
    by (simp add: u)
qed

text \<open>
  Counterexample to C3 as stated: the reply of \<^verbatim>\<open>broadcast\<close> in \<^verbatim>\<open>main.py\<close> is the
  same text when one of the three sends fails and when none fails, so it does not report
  the counts.
\<close>

theorem broadcast_reply_ignores_failures:
  "failures example_services ''Hello'' (select_active_users (store (example_world ''pending''))) = 1
   \<and> filter is_reply (events (broadcast example_config example_services 100 [''Hello'']
        (example_world ''pending''))) = [Reply ''Xabar barcha foydalanuvchilarga yuborildi.'' None]
   \<and> failures (example_services\<lparr>send_message := \<lambda>c t. None\<rparr>) ''Hello''
        (select_active_users (store (example_world ''pending''))) = 0
   \<and> filter is_reply (events (broadcast example_config (example_services\<lparr>send_message := \<lambda>c t. None\<rparr>)
        100 [''Hello''] (example_world ''pending''))) =
      [Reply ''Xabar barcha foydalanuvchilarga yuborildi.'' None]"
  by (simp add: broadcast_def failures_def store_defs example_defs Let_def)

subsection \<open>Features behind the gate\<close>




subsection \<open>A failing completion service\<close>

text \<open>
  Claim C6, as the code has it. The claim says that the reply carries no raw error text.
  When the completion service fails on a prompt, both bots catch the failure and send
  exactly one reply. In \<^verbatim>\<open>main.py\<close>, for a user in AI mode and a text that is no menu
  label, the reply is \<^verbatim>\<open>Xato yuz berdi:\<close> followed by the text of the exception, and
  the state, with the \<^verbatim>\<open>ai_mode\<close> flag, is left as it was. In \<^verbatim>\<open>main_bot_code.py\<close>,
  which has no such flag, the exception goes to the log and the reply is a fixed text;
  there the prompt is forwarded once the gate has returned true, and a gate that returns
  true has logged nothing.
\<close>

theorem completion_failure_is_caught:
  "(txt \<notin> set [''Yordam'', ''Biz haqimizda'', ''Kanal'', ''Guruh'', ''Veb sayt''] \<and>
    user_data w uid ''ai_mode'' = Some True \<and> generate_content srv txt = Inl e \<longrightarrow>
      handle_message cfg srv uid uname txt w =
        \<lparr>raised = None, events = [Reply (''Xato yuz berdi: '' @ str_exn e) None], final = w\<rparr>)
   \<and> (check_subscription cfgb srv (from_id user) = Inr (logged, True) \<and>
       txt' \<notin> set special_commands \<and>
       send_chat_action srv chat_id = None \<and> generate_content srv txt' = Inl e' \<longrightarrow>
      process_message cfgb srv user chat_id txt' wb =
        \<lparr>raised = None,
         events = [ChatAction chat_id, Log (''Error processing message: '' @ str_exn e'),
                   Reply ''Xatolik yuz berdi. Iltimos, keyinroq qayta urinib ko'ring.'' None],
         final = wb\<lparr>database := save_user srv user (database wb)\<rparr>\<rparr>)"
proof (intro conjI impI)
  assume "txt \<notin> set [''Yordam'', ''Biz haqimizda'', ''Kanal'', ''Guruh'', ''Veb sayt''] \<and>
          user_data w uid ''ai_mode'' = Some True \<and> generate_content srv txt = Inl e"
  then show "handle_message cfg srv uid uname txt w =
        \<lparr>raised = None, events = [Reply (''Xato yuz berdi: '' @ str_exn e) None], final = w\<rparr>"
    by (simp add: handle_message_def)
next
  assume a: "check_subscription cfgb srv (from_id user) = Inr (logged, True) \<and>
       txt' \<notin> set special_commands \<and>
       send_chat_action srv chat_id = None \<and> generate_content srv txt' = Inl e'"
  then have "logged = []"
    using gate_true_logs_nothing(2)[of cfgb srv "from_id user" logged] by blast
  with a show "process_message cfgb srv user chat_id txt' wb =
        \<lparr>raised = None,
         events = [ChatAction chat_id, Log (''Error processing message: '' @ str_exn e'),
                   Reply ''Xatolik yuz berdi. Iltimos, keyinroq qayta urinib ko'ring.'' None],
         final = wb\<lparr>database := save_user srv user (database wb)\<rparr>\<rparr>"
    by (simp add: process_message_def Let_def)
qed

text \<open>
  Witness for C6: user 1 is a member and in AI mode, and the completion service is out of
  quota.
\<close>

theorem completion_failure_is_caught_witness:
  "handle_message example_config example_services 1 (Some ''ann'') ''What is hope?''
     (example_world ''pending'') =
     \<lparr>raised = None, events = [Reply ''Xato yuz berdi: 429 quota exceeded'' None],
      final = example_world ''pending''\<rparr>
   \<and> events (process_message example_config_bc example_services
        \<lparr>from_id = 1, from_username = Some ''ann'', from_first_name = Some ''Ann'',
         from_last_name = None\<rparr> 1 ''What is hope?'' example_world_bc) =
      [ChatAction 1, Log ''Error processing message: 429 quota exceeded'',
       Reply ''Xatolik yuz berdi. Iltimos, keyinroq qayta urinib ko'ring.'' None]"
proof -
  have h1: "''What is hope?'' \<notin> set [''Yordam'', ''Biz haqimizda'', ''Kanal'', ''Guruh'', ''Veb sayt''] \<and>
        user_data (example_world ''pending'') 1 ''ai_mode'' = Some True \<and>
        generate_content example_services ''What is hope?'' = Inl (CompletionError ''429 quota exceeded'')"
    by (simp add: example_defs)
  have h2: "check_subscription example_config_bc example_services
              (from_id \<lparr>from_id = 1, from_username = Some ''ann'', from_first_name = Some ''Ann'',
                        from_last_name = None\<rparr>) = Inr ([], True) \<and>
        ''What is hope?'' \<notin> set special_commands \<and>
        send_chat_action example_services 1 = None \<and>
        generate_content example_services ''What is hope?'' = Inl (CompletionError ''429 quota exceeded'')"
    by (simp add: check_subscription_def special_commands_def crown_def bar_chart_def bust_def
          no_entry_def memo_def busts_def link_def example_defs)
  from completion_failure_is_caught[of "''What is hope?''" "example_world ''pending''" 1 example_services
            "CompletionError ''429 quota exceeded''" example_config "Some ''ann''"
            example_config_bc
            "\<lparr>from_id = 1, from_username = Some ''ann'', from_first_name = Some ''Ann'',
              from_last_name = None\<rparr>" "[]" "''What is hope?''" 1
            "CompletionError ''429 quota exceeded''" example_world_bc] h1 h2
  show ?thesis
    by simp
qed

text \<open>
  Counterexample to C6 as stated: the reply of \<^verbatim>\<open>main.py\<close> to user 1 ends with the
  message of the exception that the completion service raised.
\<close>

theorem main_reply_carries_error_text:
  "events (handle_message example_config example_services 1 (Some ''ann'') ''What is hope?''
     (example_world ''pending'')) = [Reply ''Xato yuz berdi: 429 quota exceeded'' None]
   \<and> generate_content example_services ''What is hope?'' = Inl (CompletionError ''429 quota exceeded'')"
  by (simp add: handle_message_def example_defs)

subsection \<open>The daily motivation\<close>

lemma daily_loop_shares_frame:
  "daily_loop us fr =
     (replicate (length us) daily_callback,
      if us = [] then fr else fr\<lparr>user_var := Some (last us)\<rparr>)"
  by (induction us arbitrary: fr) auto

lemma random_choice_in_pool: "pool \<noteq> [] \<Longrightarrow> random_choice srv pool \<in> set pool"
  by (simp add: random_choice_def)

text \<open>
  What a run of the daily job does in general: with an empty pool it queues nothing;
  otherwise it picks one text of the pool and queues one callback for each active user,
  and every callback, when it runs, sends the text to the last of them.
\<close>

lemma send_daily_motivation_run:
  "run_queued (send_daily_motivation srv d) =
     (if select_due (today srv) d = [] \<or> select_active_users d = [] then []
      else replicate (length (select_active_users d))
             (daily_callback \<lparr>user_var = Some (last (select_active_users d)),
                               motivation_var = random_choice srv (select_due (today srv) d)\<rparr>))"
  by (simp add: run_queued_def send_daily_motivation_def daily_loop_shares_frame Let_def)

text \<open>
  Claim C4 fails on the code. The claim says that a run of the daily job delivers the
  motivation it picked to the active users. The callbacks that
  \<^verbatim>\<open>send_daily_motivation\<close> queues all read the loop variable \<^verbatim>\<open>user\<close> when they run,
  after the loop: with the active users 1, 2 and 3 and one approved submission, the three
  callbacks send the text to user 3, and users 1 and 2 receive nothing.
\<close>

theorem daily_callbacks_all_address_last_user:
  "run_queued (send_daily_motivation example_services (store (example_world ''approved''))) =
     replicate 3 (Inr (Send (ChatId 3) ''Never give up''
        (Some (InlineKeyboardMarkup
           [[CallbackButton (like_emoji @ '' Like'') ''like_daily'',
             SwitchInlineButton (share_emoji @ '' Ulashish'') ''Never give up'']]))))"
  by (simp add: run_queued_def send_daily_motivation_def random_choice_def daily_callback_def
        store_defs example_defs numeral_3_eq_3)

subsection \<open>The timer\<close>

lemma run_pending_daily:
  "run_pending reschedule now (daily_registration first) w =
     (daily_registration (if first \<le> now then reschedule now else first), w)"
  by (simp add: run_pending_def daily_registration_def)

lemma run_scheduler_daily:
  "run_scheduler reschedule nows (daily_registration first) w =
     (daily_registration
        (foldl (\<lambda>nxt now. if nxt \<le> now then reschedule now else nxt) first nows), w)"
  by (induction nows arbitrary: first) (simp_all add: run_pending_daily)

text \<open>
  Claim C10. In \<^verbatim>\<open>main.py\<close> the function that the timer calls returns the function
  \<^verbatim>\<open>send_daily_motivation\<close> itself, without applying it. So whatever the clock reads
  at the rounds of \<^verbatim>\<open>run_scheduler\<close>, and however the library sets the next run, the
  state after any number of rounds is the state before them: no round queues or sends a
  daily motivation.
\<close>

theorem scheduler_never_runs_daily_job:
  "snd (run_scheduler reschedule nows (daily_registration first) w) = w
   \<and> fst (job_func (daily_registration first) w) = send_daily_motivation"
  by (simp add: run_scheduler_daily) (simp add: daily_registration_def)

end
